theory Spec2Isabelle
  imports Main
begin

section \<open>Role to capability table (lib/supabase: getPermissions)\<close>

text \<open>
  The \<^verbatim>\<open>Permission\<close> interface of \<^verbatim>\<open>types/index.ts\<close>: eight named booleans.
\<close>

record permission =
  can_create_quotes :: bool
  can_approve_quotes :: bool
  can_send_quotes :: bool
  can_manage_products :: bool
  can_manage_clients :: bool
  can_view_dashboard :: bool
  can_manage_users :: bool
  can_view_audit_logs :: bool

text \<open>The three entries of the object literal \<^verbatim>\<open>permissions\<close> inside \<^verbatim>\<open>getPermissions\<close>.\<close>

definition admin_permissions :: permission where
  "admin_permissions =
     \<lparr>can_create_quotes = True, can_approve_quotes = True, can_send_quotes = True,
      can_manage_products = True, can_manage_clients = True, can_view_dashboard = True,
      can_manage_users = True, can_view_audit_logs = True\<rparr>"

definition manager_permissions :: permission where
  "manager_permissions =
     \<lparr>can_create_quotes = True, can_approve_quotes = True, can_send_quotes = True,
      can_manage_products = True, can_manage_clients = True, can_view_dashboard = True,
      can_manage_users = False, can_view_audit_logs = True\<rparr>"

definition agent_permissions :: permission where
  "agent_permissions =
     \<lparr>can_create_quotes = True, can_approve_quotes = False, can_send_quotes = False,
      can_manage_products = False, can_manage_clients = False, can_view_dashboard = True,
      can_manage_users = False, can_view_audit_logs = False\<rparr>"

text \<open>
  \<^verbatim>\<open>permissions[role]\<close> is a JavaScript property read on an object literal. The literal
  has the own keys \<^verbatim>\<open>admin\<close>, \<^verbatim>\<open>manager\<close>, \<^verbatim>\<open>agent\<close>; every other key is looked up
  on its prototype, \<^verbatim>\<open>Object.prototype\<close>, whose property names are listed below. Each of
  them holds a function or an object, so the value read is truthy; any further key reads
  \<^verbatim>\<open>undefined\<close>.
\<close>

definition object_prototype_keys :: "string list" where
  "object_prototype_keys =
     [''constructor'', ''__defineGetter__'', ''__defineSetter__'', ''hasOwnProperty'',
      ''__lookupGetter__'', ''__lookupSetter__'', ''isPrototypeOf'',
      ''propertyIsEnumerable'', ''toString'', ''valueOf'', ''__proto__'',
      ''toLocaleString'']"

text \<open>
  What \<^verbatim>\<open>getPermissions\<close> hands back: one of the three capability objects, or the member
  of \<^verbatim>\<open>Object.prototype\<close> of the given name.
\<close>

datatype permission_lookup = Caps permission | Inherited string

text \<open>
  \<^verbatim>\<open>return permissions[role as keyof typeof permissions] || permissions.agent;\<close>
  The fallback after \<^verbatim>\<open>||\<close> is taken only when the property read is falsy.
\<close>

definition getPermissions :: "string \<Rightarrow> permission_lookup" where
  "getPermissions role =
     (if role = ''admin'' then Caps admin_permissions
      else if role = ''manager'' then Caps manager_permissions
      else if role = ''agent'' then Caps agent_permissions
      else if role \<in> set object_prototype_keys then Inherited role
      else Caps agent_permissions)"

text \<open>
  JavaScript values that the authorizer can return: a boolean, or \<^verbatim>\<open>undefined\<close> (a
  capability read on something that is not a capability object, or on \<^verbatim>\<open>null?.\<close>).
\<close>

datatype jsval = JBool bool | JUndefined

fun truthy :: "jsval \<Rightarrow> bool" where
  "truthy (JBool b) = b"
| "truthy JUndefined = False"

text \<open>\<^verbatim>\<open>a && b\<close> with a boolean right operand: a falsy left operand is the result.\<close>

fun js_and :: "jsval \<Rightarrow> bool \<Rightarrow> jsval" where
  "js_and (JBool True) b = JBool b"
| "js_and (JBool False) b = JBool False"
| "js_and JUndefined b = JUndefined"

text \<open>\<^verbatim>\<open>permissions.can_xxx\<close> on the value returned by \<^verbatim>\<open>getPermissions\<close>.\<close>

fun read_cap :: "(permission \<Rightarrow> bool) \<Rightarrow> permission_lookup \<Rightarrow> jsval" where
  "read_cap f (Caps p) = JBool (f p)"
| "read_cap f (Inherited k) = JUndefined"

section \<open>Quotes (types/index.ts: Quote; table quotes)\<close>

text \<open>Points in time (\<^verbatim>\<open>timestamptz\<close> columns, \<^verbatim>\<open>new Date()\<close>), as a count of ticks.\<close>

type_synonym timestamp = nat

datatype quote_status = Draft | PendingApproval | Approved | Rejected | Sent

text \<open>
  The columns of a quote row. The joined \<^verbatim>\<open>client\<close>, \<^verbatim>\<open>items\<close> and
  \<^verbatim>\<open>created_by_user\<close> are left out; amounts are in hundredths (\<^verbatim>\<open>numeric(10,2)\<close>).
  Several interfaces have fields of the same name (\<^verbatim>\<open>id\<close>, \<^verbatim>\<open>organization_id\<close>,
  \<^verbatim>\<open>created_at\<close>), so the fields of each record carry a prefix: \<open>q_\<close> here, \<open>usr_\<close>,
  \<open>org_\<close>, \<open>ou_\<close> and \<open>uo_\<close> below.
\<close>

record quote =
  q_id :: string
  q_quote_number :: string
  q_client_id :: string
  q_status :: quote_status
  q_subtotal :: int
  q_discount_amount :: int
  q_tax_amount :: int
  q_total_amount :: int
  q_valid_until :: string
  q_terms_conditions :: "string option"
  q_notes :: "string option"
  q_created_by :: string
  q_approved_by :: "string option"
  q_sent_at :: "timestamp option"
  q_organization_id :: string
  q_created_at :: timestamp
  q_updated_at :: timestamp

section \<open>Action authorizer (lib/supabase: canPerformQuoteAction)\<close>

datatype quote_action = ActCreate | ActEdit | ActApprove | ActReject | ActSend | ActDelete

text \<open>
  \<^verbatim>\<open>canPerformQuoteAction(action, quote, userRole, userId)\<close>. The \<^verbatim>\<open>default\<close> branch of
  the switch has no counterpart: the six actions are all there are.
\<close>

fun canPerformQuoteAction :: "quote_action \<Rightarrow> quote \<Rightarrow> string \<Rightarrow> string \<Rightarrow> jsval" where
  "canPerformQuoteAction ActCreate quote userRole userId =
     read_cap can_create_quotes (getPermissions userRole)"
| "canPerformQuoteAction ActEdit quote userRole userId =
     JBool (q_status quote = Draft \<and> (q_created_by quote = userId \<or> userRole \<noteq> ''agent''))"
| "canPerformQuoteAction ActApprove quote userRole userId =
     js_and (read_cap can_approve_quotes (getPermissions userRole))
            (q_status quote = PendingApproval)"
| "canPerformQuoteAction ActReject quote userRole userId =
     js_and (read_cap can_approve_quotes (getPermissions userRole))
            (q_status quote = PendingApproval)"
| "canPerformQuoteAction ActSend quote userRole userId =
     js_and (read_cap can_send_quotes (getPermissions userRole)) (q_status quote = Approved)"
| "canPerformQuoteAction ActDelete quote userRole userId =
     JBool (q_created_by quote = userId \<or> userRole = ''admin'')"

section \<open>Identities and the quotes page (pages/Quotes.tsx)\<close>

text \<open>
  A row of table \<^verbatim>\<open>users\<close>, as \<^verbatim>\<open>select('*')\<close> returns it. The column \<^verbatim>\<open>role\<close> is not in
  the \<^verbatim>\<open>User\<close> interface but it is in the table, and the pages read it as
  \<^verbatim>\<open>user?.role\<close>; it may be null.
\<close>

record user =
  usr_id :: string
  usr_email :: string
  usr_full_name :: string
  usr_created_at :: timestamp
  usr_last_login :: "timestamp option"
  usr_is_active :: bool
  usr_role :: "string option"

text \<open>\<^verbatim>\<open>user?.id\<close> and \<^verbatim>\<open>user?.role\<close>: \<^verbatim>\<open>undefined\<close> (here \<open>None\<close>) when there is no user.\<close>

definition opt_id :: "user option \<Rightarrow> string option" where
  "opt_id user = map_option usr_id user"

definition opt_role :: "user option \<Rightarrow> string option" where
  "opt_role user = (case user of None \<Rightarrow> None | Some u \<Rightarrow> usr_role u)"

text \<open>Truthiness of an optional string: \<^verbatim>\<open>undefined\<close>, \<^verbatim>\<open>null\<close> and \<^verbatim>\<open>''\<close> are falsy.\<close>

fun truthy_str :: "string option \<Rightarrow> bool" where
  "truthy_str None = False"
| "truthy_str (Some s) = (s \<noteq> [])"

text \<open>\<^verbatim>\<open>getInitialStatus\<close>: the status a new quote gets, from the creator's role.\<close>

definition getInitialStatus :: "user option \<Rightarrow> quote_status" where
  "getInitialStatus user =
     (if opt_role user = Some ''agent'' then Draft
      else if opt_role user = Some ''manager'' \<or> opt_role user = Some ''admin'' then Approved
      else Draft)"

text \<open>
  \<^verbatim>\<open>const initialStatus = editingQuote?.status || getInitialStatus();\<close> in \<^verbatim>\<open>onSubmit\<close>:
  a quote being edited keeps its status, a new one (\<^verbatim>\<open>editingQuote\<close> null) gets the
  initial status.
\<close>

definition initialStatus :: "quote option \<Rightarrow> user option \<Rightarrow> quote_status" where
  "initialStatus editingQuote user =
     (case editingQuote of Some e \<Rightarrow> q_status e | None \<Rightarrow> getInitialStatus user)"

text \<open>
  The object \<^verbatim>\<open>updateData\<close> that \<^verbatim>\<open>handleStatusChange\<close> sends: \<^verbatim>\<open>status\<close> always, the
  other three keys only when they were assigned.
\<close>

record update_data =
  upd_status :: quote_status
  upd_approved_by :: "string option"
  upd_sent_at :: "timestamp option"
  upd_notes :: "string option"

text \<open>\<^verbatim>\<open>quotes.find(q => q.id === quoteId)\<close>\<close>

definition find_quote :: "quote list \<Rightarrow> string \<Rightarrow> quote option" where
  "find_quote quotes quoteId = List.find (\<lambda>q. q_id q = quoteId) quotes"

text \<open>\<^verbatim>\<open>quote?.notes || ''\<close>\<close>

definition existingNotes :: "quote option \<Rightarrow> string" where
  "existingNotes quote =
     (case quote of None \<Rightarrow> [] | Some q \<Rightarrow> (case q_notes q of None \<Rightarrow> [] | Some n \<Rightarrow> n))"

definition blank_line :: string where
  "blank_line = [CHR 0x0A, CHR 0x0A]"

text \<open>
  The first half of \<^verbatim>\<open>handleStatusChange\<close>: building \<^verbatim>\<open>updateData\<close> from the signed-in
  user, the client clock, the page's list of quotes, the target status and the optional
  reason.
\<close>

definition buildUpdateData ::
  "user option \<Rightarrow> timestamp \<Rightarrow> quote list \<Rightarrow> string \<Rightarrow> quote_status \<Rightarrow> string option
     \<Rightarrow> update_data" where
  "buildUpdateData user now quotes quoteId newStatus reason =
     (let u0 = \<lparr>upd_status = newStatus, upd_approved_by = None, upd_sent_at = None,
                upd_notes = None\<rparr>;
          u1 = (if newStatus = Approved \<and> truthy_str (opt_id user)
                then u0\<lparr>upd_approved_by := opt_id user\<rparr>
                else if newStatus = Sent then u0\<lparr>upd_sent_at := Some now\<rparr>
                else u0)
      in if newStatus = Rejected \<and> truthy_str reason
         then (let en = existingNotes (find_quote quotes quoteId)
               in u1\<lparr>upd_notes :=
                       Some (en @ (if en \<noteq> [] then blank_line else []) @
                             ''Rejected: '' @ the reason)\<rparr>)
         else u1)"

text \<open>
  An \<^verbatim>\<open>UPDATE\<close> of one row with \<^verbatim>\<open>updateData\<close>: the keys present are written, and the
  trigger \<^verbatim>\<open>update_quotes_updated_at\<close> stamps \<^verbatim>\<open>updated_at\<close> with the database clock.
\<close>

definition apply_update :: "timestamp \<Rightarrow> update_data \<Rightarrow> quote \<Rightarrow> quote" where
  "apply_update db_now upd row =
     row\<lparr>q_status := upd_status upd,
         q_approved_by := (case upd_approved_by upd of None \<Rightarrow> q_approved_by row
                           | Some a \<Rightarrow> Some a),
         q_sent_at := (case upd_sent_at upd of None \<Rightarrow> q_sent_at row | Some t \<Rightarrow> Some t),
         q_notes := (case upd_notes upd of None \<Rightarrow> q_notes row | Some n \<Rightarrow> Some n),
         q_updated_at := db_now\<rparr>"

text \<open>\<^verbatim>\<open>supabase.from('quotes').update(updateData).eq('id', quoteId)\<close> on the table.\<close>

definition update_quotes :: "timestamp \<Rightarrow> update_data \<Rightarrow> string \<Rightarrow> quote list \<Rightarrow> quote list" where
  "update_quotes db_now upd quoteId rows =
     map (\<lambda>r. if q_id r = quoteId then apply_update db_now upd r else r) rows"

text \<open>
  What the quotes page works with: whether a backend client exists, the table
  \<^verbatim>\<open>quotes\<close> behind it, whether the next write and the next reads are rejected, the two
  clocks, what \<^verbatim>\<open>useAuthStore()\<close> gives (user, organization id, permissions), and the
  page's own React state (\<^verbatim>\<open>quotes\<close>, \<^verbatim>\<open>viewingQuote\<close>, \<^verbatim>\<open>loading\<close>) with the alerts shown.
\<close>

record quotes_world =
  qw_supabase :: bool
  qw_table :: "quote list"
  qw_update_error :: bool
  qw_select_error :: bool
  qw_client_now :: timestamp
  qw_db_now :: timestamp
  qw_user :: "user option"
  qw_organization_id :: "string option"
  qw_permissions :: "permission_lookup option"
  qw_quotes :: "quote list"
  qw_viewingQuote :: "quote option"
  qw_loading :: bool
  qw_alerts :: "string list"

text \<open>
  \<^verbatim>\<open>fetchData\<close>: reload the organization's quotes, newest first. A failure of any of its
  three parallel reads is caught and logged; \<^verbatim>\<open>loading\<close> is cleared in every case.
\<close>

definition fetchData :: "quotes_world \<Rightarrow> quotes_world" where
  "fetchData w =
     (if \<not> truthy_str (qw_organization_id w) then w\<lparr>qw_loading := False\<rparr>
      else if \<not> qw_supabase w then w\<lparr>qw_loading := False\<rparr>
      else if qw_select_error w then w\<lparr>qw_loading := False\<rparr>
      else w\<lparr>qw_quotes :=
                rev (sort_key q_created_at
                       (filter (\<lambda>q. Some (q_organization_id q) = qw_organization_id w)
                               (qw_table w))),
              qw_loading := False\<rparr>)"

text \<open>\<^verbatim>\<open>statusMessages[newStatus]\<close>: there is no message for \<^verbatim>\<open>draft\<close>.\<close>

fun statusMessages :: "quote_status \<Rightarrow> string option" where
  "statusMessages PendingApproval = Some ''Quote submitted for approval.''"
| "statusMessages Approved = Some ''Quote approved successfully.''"
| "statusMessages Rejected = Some ''Quote rejected.''"
| "statusMessages Sent = Some ''Quote marked as sent.''"
| "statusMessages Draft = None"

text \<open>
  \<^verbatim>\<open>handleStatusChange(quoteId, newStatus, reason?)\<close>. It returns nothing and raises
  nothing: without a client it returns at once, and an error of the write is caught and
  logged. It reads neither the quote's current status nor the user's role or permissions.
\<close>

definition handleStatusChange ::
  "quotes_world \<Rightarrow> string \<Rightarrow> quote_status \<Rightarrow> string option \<Rightarrow> quotes_world" where
  "handleStatusChange w quoteId newStatus reason =
     (if \<not> qw_supabase w then w
      else
        let updateData = buildUpdateData (qw_user w) (qw_client_now w) (qw_quotes w)
                           quoteId newStatus reason
        in if qw_update_error w then w
           else
             let w1 = w\<lparr>qw_table := update_quotes (qw_db_now w) updateData quoteId (qw_table w)\<rparr>;
                 w2 = fetchData w1;
                 w3 = w2\<lparr>qw_viewingQuote := None\<rparr>
             in (case statusMessages newStatus of
                   None \<Rightarrow> w3
                 | Some msg \<Rightarrow> w3\<lparr>qw_alerts := qw_alerts w3 @ [msg]\<rparr>))"

section \<open>Where the page offers a transition (QuoteViewModal.tsx, Quotes.tsx)\<close>

datatype trigger = SubmitForApproval | Approve | Reject | MarkSent

text \<open>The status each control passes to \<^verbatim>\<open>handleStatusChange\<close>.\<close>

fun target_status :: "trigger \<Rightarrow> quote_status" where
  "target_status SubmitForApproval = PendingApproval"
| "target_status Approve = Approved"
| "target_status Reject = Rejected"
| "target_status MarkSent = Sent"

text \<open>\<^verbatim>\<open>permissions?.can_xxx\<close> on the store's \<^verbatim>\<open>permissions\<close>, which may be null.\<close>

definition opt_cap :: "(permission \<Rightarrow> bool) \<Rightarrow> permission_lookup option \<Rightarrow> jsval" where
  "opt_cap f permissions = (case permissions of None \<Rightarrow> JUndefined | Some p \<Rightarrow> read_cap f p)"

text \<open>The six flags computed by \<^verbatim>\<open>QuoteViewModal\<close> before it renders.\<close>

definition canSubmitForApproval :: "quote \<Rightarrow> user option \<Rightarrow> bool" where
  "canSubmitForApproval quote user =
     (q_status quote = Draft \<and>
      (Some (q_created_by quote) = opt_id user \<or> opt_role user \<noteq> Some ''agent''))"




definition canEdit :: "quote \<Rightarrow> user option \<Rightarrow> bool" where
  "canEdit quote user =
     (q_status quote = Draft \<and>
      (Some (q_created_by quote) = opt_id user \<or> opt_role user \<noteq> Some ''agent''))"

definition canDelete :: "quote \<Rightarrow> user option \<Rightarrow> bool" where
  "canDelete quote user =
     (Some (q_created_by quote) = opt_id user \<or> opt_role user = Some ''admin'')"



text \<open>
  The row of buttons of the quotes list in \<^verbatim>\<open>Quotes.tsx\<close>:
  \<^verbatim>\<open>quote.status === 'draft'\<close> for submitting and for editing,
  \<^verbatim>\<open>quote.status === 'pending_approval' && canApproveQuotes\<close> for approving and rejecting,
  \<^verbatim>\<open>quote.status === 'approved' && canSendQuotes\<close> for marking sent.
\<close>

fun list_offers :: "quote \<Rightarrow> permission_lookup option \<Rightarrow> trigger \<Rightarrow> bool" where
  "list_offers quote permissions SubmitForApproval = (q_status quote = Draft)"
| "list_offers quote permissions Approve =
     (q_status quote = PendingApproval \<and> truthy (opt_cap can_approve_quotes permissions))"
| "list_offers quote permissions Reject =
     (q_status quote = PendingApproval \<and> truthy (opt_cap can_approve_quotes permissions))"
| "list_offers quote permissions MarkSent =
     (q_status quote = Approved \<and> truthy (opt_cap can_send_quotes permissions))"

definition list_offers_edit :: "quote \<Rightarrow> bool" where
  "list_offers_edit quote = (q_status quote = Draft)"

text \<open>
  A trigger issued from the list. Rejecting asks with \<^verbatim>\<open>prompt\<close>, whose answer is a string
  or null, and passes \<^verbatim>\<open>reason || undefined\<close>.
\<close>

definition list_trigger ::
  "quotes_world \<Rightarrow> quote \<Rightarrow> trigger \<Rightarrow> string option \<Rightarrow> quotes_world option" where
  "list_trigger w quote trig promptAnswer =
     (if list_offers quote (qw_permissions w) trig
      then Some (handleStatusChange w (q_id quote) (target_status trig)
                   (if trig = Reject \<and> truthy_str promptAnswer then promptAnswer else None))
      else None)"

subsection \<open>The transition table as the specification words it\<close>



text \<open>
  The specification's condition for submitting and for editing: the quote is a draft, and
  the actor created it or has a role other than agent.
\<close>

definition spec_may_submit_or_edit :: "quote \<Rightarrow> string \<Rightarrow> string option \<Rightarrow> bool" where
  "spec_may_submit_or_edit quote actorId actorRole =
     (q_status quote = Draft \<and> (q_created_by quote = actorId \<or> actorRole \<noteq> Some ''agent''))"

section \<open>Session and membership store (stores/authStore)\<close>

subsection \<open>Records of the backend\<close>

datatype membership_status = Active | Pending | Inactive

text \<open>A row of \<^verbatim>\<open>organizations\<close>; the \<^verbatim>\<open>settings\<close> bag is kept as its JSON text.\<close>

record organization =
  org_id :: string
  org_name :: string
  org_created_at :: timestamp
  org_settings :: "string option"

text \<open>A row of \<^verbatim>\<open>organization_users\<close> (interface \<^verbatim>\<open>OrganizationUser\<close>).\<close>

record organization_user =
  ou_id :: string
  ou_user_id :: string
  ou_organization_id :: string
  ou_role :: string
  ou_status :: membership_status
  ou_joined_at :: timestamp
  ou_created_at :: timestamp

text \<open>A row returned by the function \<^verbatim>\<open>get_user_organizations\<close> (interface \<^verbatim>\<open>UserOrganization\<close>).\<close>

record user_organization =
  uo_organization_id :: string
  uo_organization_name :: string
  uo_user_role :: string
  uo_user_status :: membership_status
  uo_joined_at :: timestamp

text \<open>
  Errors: \<^verbatim>\<open>new Error(msg)\<close> raised by the store itself, and the error objects of the
  authentication service and of the database interface.
\<close>

datatype error = JsError string | AuthError string | PostgrestError string

text \<open>
  A request to the backend can go wrong in two ways: the client returns an \<^verbatim>\<open>error\<close>
  field, or the awaited call raises.
\<close>

datatype fault = Returned error | Thrown error

fun fault_error :: "fault \<Rightarrow> error" where
  "fault_error (Returned e) = e"
| "fault_error (Thrown e) = e"

datatype request =
  SignInWithPassword | AuthSignOut | GetSession | UpdateLastLogin | SelectUser
  | RpcGetUserOrganizations | SelectOrganization | SelectMembership

text \<open>
  The backend behind the client: the accounts of the authentication service (email,
  password, identity id), the session it holds, three tables, and for each kind of request
  whether it goes wrong. The backend is not part of the store; the store only sees it
  through the requests below.
\<close>

record backend =
  be_accounts :: "(string \<times> string \<times> string) list"
  be_session :: "string option"
  be_users :: "user list"
  be_organizations :: "organization list"
  be_organization_users :: "organization_user list"
  be_fault :: "request \<Rightarrow> fault option"

text \<open>\<^verbatim>\<open>.single()\<close> wants exactly one row, \<^verbatim>\<open>.maybeSingle()\<close> at most one.\<close>

fun single :: "'a list \<Rightarrow> error + 'a" where
  "single [r] = Inr r"
| "single rows = Inl (PostgrestError ''PGRST116'')"

fun maybeSingle :: "'a list \<Rightarrow> error + 'a option" where
  "maybeSingle [] = Inr None"
| "maybeSingle [r] = Inr (Some r)"
| "maybeSingle rows = Inl (PostgrestError ''PGRST116'')"

text \<open>\<^verbatim>\<open>from('users').select('*').eq('id', userId).maybeSingle()\<close>\<close>

definition select_user :: "backend \<Rightarrow> string \<Rightarrow> error + user option" where
  "select_user b userId =
     (case be_fault b SelectUser of
        Some f \<Rightarrow> Inl (fault_error f)
      | None \<Rightarrow> maybeSingle (filter (\<lambda>u. usr_id u = userId) (be_users b)))"

text \<open>
  The SQL function \<^verbatim>\<open>get_user_organizations(user_uuid)\<close>: the active memberships of the
  identity joined with their organizations, ordered by \<^verbatim>\<open>joined_at\<close> ascending.
\<close>

definition get_user_organizations :: "backend \<Rightarrow> string \<Rightarrow> user_organization list" where
  "get_user_organizations b user_uuid =
     map (\<lambda>(ou, og).
            \<lparr>uo_organization_id = ou_organization_id ou, uo_organization_name = org_name og,
             uo_user_role = ou_role ou, uo_user_status = ou_status ou,
             uo_joined_at = ou_joined_at ou\<rparr>)
         (sort_key (\<lambda>(ou, og). ou_joined_at ou)
            (concat (map (\<lambda>ou. map (Pair ou)
                                  (filter (\<lambda>og. ou_organization_id ou = org_id og)
                                          (be_organizations b)))
                         (filter (\<lambda>ou. ou_user_id ou = user_uuid \<and> ou_status ou = Active)
                                 (be_organization_users b)))))"

text \<open>\<^verbatim>\<open>rpc('get_user_organizations', { user_uuid: userId })\<close>\<close>

definition rpc_get_user_organizations ::
  "backend \<Rightarrow> string \<Rightarrow> error + user_organization list" where
  "rpc_get_user_organizations b userId =
     (case be_fault b RpcGetUserOrganizations of
        Some f \<Rightarrow> Inl (fault_error f)
      | None \<Rightarrow> Inr (get_user_organizations b userId))"

text \<open>\<^verbatim>\<open>from('organizations').select('*').eq('id', organizationId).single()\<close>\<close>

definition select_organization :: "backend \<Rightarrow> string \<Rightarrow> error + organization" where
  "select_organization b organizationId =
     (case be_fault b SelectOrganization of
        Some f \<Rightarrow> Inl (fault_error f)
      | None \<Rightarrow> single (filter (\<lambda>og. org_id og = organizationId) (be_organizations b)))"

text \<open>
  \<^verbatim>\<open>from('organization_users').select('*').eq('user_id', get().user?.id)
  .eq('organization_id', organizationId).eq('status', 'active').single()\<close>; without a
  user no row matches.
\<close>

definition select_membership ::
  "backend \<Rightarrow> string option \<Rightarrow> string \<Rightarrow> error + organization_user" where
  "select_membership b userId organizationId =
     (case be_fault b SelectMembership of
        Some f \<Rightarrow> Inl (fault_error f)
      | None \<Rightarrow>
          single (filter (\<lambda>m. Some (ou_user_id m) = userId \<and>
                               ou_organization_id m = organizationId \<and> ou_status m = Active)
                         (be_organization_users b)))"

subsection \<open>The store and its operations\<close>

text \<open>The data fields of \<^verbatim>\<open>AuthState\<close>.\<close>

record auth_state =
  user :: "user option"
  organization :: "organization option"
  currentOrgMembership :: "organization_user option"
  userOrganizations :: "user_organization list"
  permissions :: "permission_lookup option"
  loading :: bool

text \<open>The state the store is created with, at every start of the process.\<close>

definition initial_store :: auth_state where
  "initial_store =
     \<lparr>user = None, organization = None, currentOrgMembership = None,
      userOrganizations = [], permissions = None, loading = True\<rparr>"

text \<open>
  \<^verbatim>\<open>const showSettings = currentOrgMembership?.role === 'admin';\<close> in the sidebar: a
  place where the role looked at is that of the membership in the active organization.
\<close>

definition showSettings :: "auth_state \<Rightarrow> bool" where
  "showSettings st = (map_option ou_role (currentOrgMembership st) = Some ''admin'')"

text \<open>
  Everything an operation of the store can read or change: the store itself, the
  \<^verbatim>\<open>localStorage\<close> entry \<^verbatim>\<open>currentOrganizationId\<close>, the client \<^verbatim>\<open>supabase\<close> (null when the
  application is not configured) with the backend behind it, and the client's clock.
\<close>

record world =
  store :: auth_state
  localStorage :: "string option"
  supabase :: "backend option"
  clock :: timestamp

text \<open>
  \<^verbatim>\<open>signOut\<close>: the remote sign-out is attempted when there is a client; whether it works,
  returns an error or raises, the local state is cleared afterwards. It never raises.
\<close>

definition signOut :: "world \<Rightarrow> world" where
  "signOut w =
     (let w1 = (case supabase w of
                  None \<Rightarrow> w
                | Some b \<Rightarrow>
                    (case be_fault b AuthSignOut of
                       Some f \<Rightarrow> w
                     | None \<Rightarrow> w\<lparr>supabase := Some (b\<lparr>be_session := None\<rparr>)\<rparr>))
      in w1\<lparr>localStorage := None,
            store := (store w1)\<lparr>user := None, organization := None,
                                 currentOrgMembership := None, userOrganizations := [],
                                 permissions := None\<rparr>\<rparr>)"

text \<open>
  \<^verbatim>\<open>switchOrganization(organizationId)\<close>: both reads must succeed before anything is
  written; an error of either is logged and raised again. Without a client it returns
  without doing anything.
\<close>

definition switchOrganization :: "string \<Rightarrow> world \<Rightarrow> (error + unit) \<times> world" where
  "switchOrganization organizationId w =
     (case supabase w of
        None \<Rightarrow> (Inr (), w)
      | Some b \<Rightarrow>
          (case select_organization b organizationId of
             Inl orgError \<Rightarrow> (Inl orgError, w)
           | Inr orgData \<Rightarrow>
               (case select_membership b (opt_id (user (store w))) organizationId of
                  Inl membershipError \<Rightarrow> (Inl membershipError, w)
                | Inr membershipData \<Rightarrow>
                    (Inr (),
                     w\<lparr>localStorage := Some organizationId,
                       store := (store w)\<lparr>organization := Some orgData,
                                           currentOrgMembership := Some membershipData,
                                           permissions :=
                                             Some (getPermissions (ou_role membershipData))\<rparr>\<rparr>))))"

text \<open>
  The choice of the organization to activate in \<^verbatim>\<open>fetchUserData\<close>:
  \<^verbatim>\<open>savedOrgId && orgsData?.find(org => org.organization_id === savedOrgId)
     ? savedOrgId : orgsData?.[0]?.organization_id\<close>
\<close>

definition targetOrgId :: "string option \<Rightarrow> user_organization list \<Rightarrow> string option" where
  "targetOrgId savedOrgId orgsData =
     (if truthy_str savedOrgId \<and>
         List.find (\<lambda>org. Some (uo_organization_id org) = savedOrgId) orgsData \<noteq> None
      then savedOrgId
      else (case orgsData of [] \<Rightarrow> None | org # _ \<Rightarrow> Some (uo_organization_id org)))"

text \<open>
  \<^verbatim>\<open>fetchUserData(userId)\<close>: everything after the client check runs inside one
  \<^verbatim>\<open>try\<close> whose \<^verbatim>\<open>catch\<close> only logs, so the function never raises. The store's user and
  organization list are set after both the profile and the organization list were read;
  an error raised by \<^verbatim>\<open>switchOrganization\<close> ends the function with what was set so far.
\<close>

definition fetchUserData :: "string \<Rightarrow> world \<Rightarrow> world" where
  "fetchUserData userId w =
     (case supabase w of
        None \<Rightarrow> w
      | Some b \<Rightarrow>
          (case select_user b userId of
             Inl userError \<Rightarrow> w
           | Inr None \<Rightarrow> signOut w
           | Inr (Some userData) \<Rightarrow>
               (case rpc_get_user_organizations b userId of
                  Inl orgsError \<Rightarrow> w
                | Inr orgsData \<Rightarrow>
                    (let w1 = w\<lparr>store := (store w)\<lparr>user := Some userData,
                                                      userOrganizations := orgsData\<rparr>\<rparr>
                     in (case targetOrgId (localStorage w1) orgsData of
                           None \<Rightarrow> w1
                         | Some target \<Rightarrow>
                             (if target \<noteq> [] then snd (switchOrganization target w1)
                              else w1))))))"

text \<open>\<^verbatim>\<open>signInWithPassword\<close> against the accounts of the authentication service.\<close>

definition find_account ::
  "backend \<Rightarrow> string \<Rightarrow> string \<Rightarrow> (string \<times> string \<times> string) option" where
  "find_account b email password =
     List.find (\<lambda>(e, p, i). e = email \<and> p = password) (be_accounts b)"

text \<open>
  \<^verbatim>\<open>signIn(email, password)\<close>. It raises when there is no client and when authentication
  fails. The result of the \<^verbatim>\<open>last_login\<close> update is not looked at; the call to
  \<^verbatim>\<open>fetchUserData\<close> cannot raise.
\<close>

definition signIn :: "string \<Rightarrow> string \<Rightarrow> world \<Rightarrow> (error + unit) \<times> world" where
  "signIn email password w =
     (case supabase w of
        None \<Rightarrow> (Inl (JsError ''Supabase is not configured''), w)
      | Some b \<Rightarrow>
          (case be_fault b SignInWithPassword of
             Some f \<Rightarrow> (Inl (fault_error f), w)
           | None \<Rightarrow>
               (case find_account b email password of
                  None \<Rightarrow> (Inl (AuthError ''Invalid login credentials''), w)
                | Some (e, p, uid) \<Rightarrow>
                    (let b1 = b\<lparr>be_session := Some uid\<rparr>
                     in (case be_fault b UpdateLastLogin of
                           Some (Thrown err) \<Rightarrow> (Inl err, w\<lparr>supabase := Some b1\<rparr>)
                         | Some (Returned err) \<Rightarrow>
                             (Inr (), fetchUserData uid (w\<lparr>supabase := Some b1\<rparr>))
                         | None \<Rightarrow>
                             (Inr (),
                              fetchUserData uid
                                (w\<lparr>supabase :=
                                     Some (b1\<lparr>be_users :=
                                                map (\<lambda>u. if usr_id u = uid
                                                          then u\<lparr>usr_last_login := Some (clock w)\<rparr>
                                                          else u)
                                                    (be_users b1)\<rparr>)\<rparr>)))))))"




text \<open>
  Two backends that answer the reads of organizations and memberships alike: they differ
  at most in the session and in the table of users.
\<close>

definition same_reads :: "backend \<Rightarrow> backend \<Rightarrow> bool" where
  "same_reads b b' =
     (be_fault b' = be_fault b \<and> be_organizations b' = be_organizations b \<and>
      be_organization_users b' = be_organization_users b)"

section \<open>Concrete data for evaluating the definitions\<close>

definition ex_user :: user where
  "ex_user =
     \<lparr>usr_id = ''u1'', usr_email = ''ann@example.com'', usr_full_name = ''Ann'',
      usr_created_at = 1, usr_last_login = None, usr_is_active = True,
      usr_role = Some ''agent''\<rparr>"

definition ex_manager :: user where
  "ex_manager =
     \<lparr>usr_id = ''u3'', usr_email = ''max@example.com'', usr_full_name = ''Max'',
      usr_created_at = 1, usr_last_login = None, usr_is_active = True,
      usr_role = Some ''manager''\<rparr>"

definition ex_other_agent :: user where
  "ex_other_agent =
     \<lparr>usr_id = ''u2'', usr_email = ''bob@example.com'', usr_full_name = ''Bob'',
      usr_created_at = 1, usr_last_login = None, usr_is_active = True,
      usr_role = Some ''agent''\<rparr>"

definition ex_org_a :: organization where
  "ex_org_a =
     \<lparr>org_id = ''orgA'', org_name = ''Acme'', org_created_at = 2, org_settings = None\<rparr>"

definition ex_org_b :: organization where
  "ex_org_b =
     \<lparr>org_id = ''orgB'', org_name = ''Bolt'', org_created_at = 3, org_settings = None\<rparr>"

definition ex_member_a :: organization_user where
  "ex_member_a =
     \<lparr>ou_id = ''m1'', ou_user_id = ''u1'', ou_organization_id = ''orgA'',
      ou_role = ''admin'', ou_status = Active, ou_joined_at = 10, ou_created_at = 10\<rparr>"

definition ex_member_b :: organization_user where
  "ex_member_b =
     \<lparr>ou_id = ''m2'', ou_user_id = ''u1'', ou_organization_id = ''orgB'',
      ou_role = ''agent'', ou_status = Active, ou_joined_at = 20, ou_created_at = 20\<rparr>"

definition ex_backend :: backend where
  "ex_backend =
     \<lparr>be_accounts = [(''ann@example.com'', ''pw'', ''u1'')],
      be_session = Some ''u1'', be_users = [ex_user],
      be_organizations = [ex_org_a, ex_org_b],
      be_organization_users = [ex_member_a, ex_member_b],
      be_fault = (\<lambda>r. None)\<rparr>"

definition ex_store_a :: auth_state where
  "ex_store_a =
     \<lparr>user = Some ex_user, organization = Some ex_org_a,
      currentOrgMembership = Some ex_member_a,
      userOrganizations = [],
      permissions = Some (Caps admin_permissions), loading = False\<rparr>"

definition ex_world_a :: world where
  "ex_world_a =
     \<lparr>store = ex_store_a, localStorage = Some ''orgA'',
      supabase = Some ex_backend, clock = 100\<rparr>"

definition ex_draft :: quote where
  "ex_draft =
     \<lparr>q_id = ''q1'', q_quote_number = ''Q-2025-001'', q_client_id = ''c1'',
      q_status = Draft, q_subtotal = 10000, q_discount_amount = 500, q_tax_amount = 950,
      q_total_amount = 10450, q_valid_until = ''2025-12-31'', q_terms_conditions = None,
      q_notes = None, q_created_by = ''u1'', q_approved_by = None, q_sent_at = None,
      q_organization_id = ''orgA'', q_created_at = 5, q_updated_at = 5\<rparr>"

definition ex_pending :: quote where
  "ex_pending =
     \<lparr>q_id = ''q2'', q_quote_number = ''Q-2025-002'', q_client_id = ''c1'',
      q_status = PendingApproval, q_subtotal = 20000, q_discount_amount = 0,
      q_tax_amount = 2000, q_total_amount = 22000, q_valid_until = ''2025-12-31'',
      q_terms_conditions = None, q_notes = Some ''Call first'', q_created_by = ''u1'',
      q_approved_by = None, q_sent_at = None, q_organization_id = ''orgA'',
      q_created_at = 6, q_updated_at = 6\<rparr>"

definition ex_quotes_world :: quotes_world where
  "ex_quotes_world =
     \<lparr>qw_supabase = True, qw_table = [ex_draft, ex_pending], qw_update_error = False,
      qw_select_error = False, qw_client_now = 50, qw_db_now = 51,
      qw_user = Some ex_other_agent, qw_organization_id = Some ''orgA'',
      qw_permissions = Some (Caps agent_permissions),
      qw_quotes = [ex_pending, ex_draft], qw_viewingQuote = None, qw_loading = False,
      qw_alerts = []\<rparr>"

definition ex_manager_world :: quotes_world where
  "ex_manager_world =
     ex_quotes_world\<lparr>qw_user := Some ex_manager,
                      qw_permissions := Some (Caps manager_permissions)\<rparr>"

definition ex_backend_rpc_down :: backend where
  "ex_backend_rpc_down =
     ex_backend\<lparr>be_fault :=
       (\<lambda>r. if r = RpcGetUserOrganizations then Some (Returned (PostgrestError ''57014''))
            else None)\<rparr>"

definition ex_backend_org_down :: backend where
  "ex_backend_org_down =
     ex_backend\<lparr>be_fault :=
       (\<lambda>r. if r = SelectOrganization then Some (Thrown (JsError ''Failed to fetch''))
            else None)\<rparr>"

definition ex_backend_b_inactive :: backend where
  "ex_backend_b_inactive =
     ex_backend\<lparr>be_organization_users := [ex_member_a, ex_member_b\<lparr>ou_status := Inactive\<rparr>]\<rparr>"

definition ex_stale_world :: quotes_world where
  "ex_stale_world = ex_manager_world\<lparr>qw_quotes := [ex_pending\<lparr>q_notes := None\<rparr>, ex_draft]\<rparr>"

definition ex_fresh :: "backend \<Rightarrow> world" where
  "ex_fresh b = \<lparr>store = initial_store, localStorage = None, supabase = Some b, clock = 100\<rparr>"

definition ex_backend_admin_profile :: backend where
  "ex_backend_admin_profile = ex_backend\<lparr>be_users := [ex_user\<lparr>usr_role := Some ''admin''\<rparr>]\<rparr>"

definition ex_world_agent_in_b :: world where
  "ex_world_agent_in_b =
     snd (switchOrganization ''orgB''
            (snd (signIn ''ann@example.com'' ''pw'' (ex_fresh ex_backend_admin_profile))))"

lemmas ex_defs =
  ex_user_def ex_manager_def ex_other_agent_def ex_org_a_def ex_org_b_def ex_member_a_def
  ex_member_b_def ex_backend_def ex_store_a_def ex_world_a_def ex_draft_def ex_pending_def
  ex_quotes_world_def ex_manager_world_def ex_backend_rpc_down_def ex_backend_org_down_def
  ex_backend_b_inactive_def ex_fresh_def ex_backend_admin_profile_def ex_stale_world_def

section \<open>The capability table and the authorizer\<close>

lemma getPermissions_table:
  "getPermissions ''admin'' = Caps admin_permissions"
  "getPermissions ''manager'' = Caps manager_permissions"
  "getPermissions ''agent'' = Caps agent_permissions"
  by (simp_all add: getPermissions_def)

lemma getPermissions_fallback:
  "role \<notin> set object_prototype_keys \<Longrightarrow> getPermissions role = Caps agent_permissions \<or>
     role = ''admin'' \<or> role = ''manager''"
  by (simp add: getPermissions_def)

lemma js_and_JBool: "js_and (JBool a) b = JBool (a \<and> b)"
  by (cases a) simp_all

lemma js_and_eq_True: "(js_and x b = JBool True) = (x = JBool True \<and> b)"
  by (cases "(x, b)" rule: js_and.cases) auto

text \<open>
  Claim C6. \<^verbatim>\<open>getPermissions\<close> is total and gives the three roles their rows of the
  table, but the fallback to the agent's capabilities does not cover every other string:
  for the role \<^verbatim>\<open>constructor\<close> the property read finds the member that every object
  inherits, which is truthy, so that member is returned and not the agent's capability
  set; reading a capability from it gives \<^verbatim>\<open>undefined\<close>, where the agent's set has
  \<^verbatim>\<open>can_create_quotes\<close> true.
\<close>

theorem getPermissions_constructor:
  "getPermissions ''constructor'' = Inherited ''constructor'' \<and>
   getPermissions ''constructor'' \<noteq> Caps agent_permissions \<and>
   read_cap can_create_quotes (getPermissions ''constructor'') = JUndefined \<and>
   read_cap can_create_quotes (Caps agent_permissions) = JBool True"
  by (simp add: getPermissions_def object_prototype_keys_def agent_permissions_def)

text \<open>
  Claim C3. For the actions approve and reject the authorizer answers true exactly when
  the capability set of the role grants approving and the quote is pending approval; and
  whenever the role has a capability set, the answer is the boolean value of that
  conjunction, so every other combination gives false. The function is total: it never
  raises.
\<close>

theorem canPerformQuoteAction_approve_reject:
  "(canPerformQuoteAction ActApprove quote userRole userId = JBool True) =
     (read_cap can_approve_quotes (getPermissions userRole) = JBool True \<and>
      q_status quote = PendingApproval) \<and>
   (canPerformQuoteAction ActReject quote userRole userId = JBool True) =
     (read_cap can_approve_quotes (getPermissions userRole) = JBool True \<and>
      q_status quote = PendingApproval) \<and>
   (getPermissions userRole = Caps caps \<longrightarrow>
      canPerformQuoteAction ActApprove quote userRole userId =
        JBool (can_approve_quotes caps \<and> q_status quote = PendingApproval) \<and>
      canPerformQuoteAction ActReject quote userRole userId =
        JBool (can_approve_quotes caps \<and> q_status quote = PendingApproval))"
  by (simp add: js_and_eq_True js_and_JBool)

theorem canPerformQuoteAction_approve_reject_witness:
  "getPermissions ''manager'' = Caps manager_permissions \<and>
   canPerformQuoteAction ActApprove ex_pending ''manager'' ''u3'' = JBool True \<and>
   canPerformQuoteAction ActReject ex_pending ''manager'' ''u3'' = JBool True"
  using canPerformQuoteAction_approve_reject
          [of ex_pending "''manager''" "''u3''" manager_permissions]
  by (simp add: getPermissions_def manager_permissions_def ex_pending_def)

section \<open>Signing out\<close>

text \<open>
  Claim C9. \<^verbatim>\<open>signOut\<close> clears the user, the organization, the membership, the list of
  organizations and the permissions, and removes the stored organization id, for every
  state: with or without a client, and whether the remote sign-out works, returns an
  error or raises. A second call in a row changes nothing any more, and the operation has
  no failing outcome.
\<close>

theorem signOut_clears_idempotent:
  "user (store (signOut w)) = None \<and>
   organization (store (signOut w)) = None \<and>
   currentOrgMembership (store (signOut w)) = None \<and>
   userOrganizations (store (signOut w)) = [] \<and>
   permissions (store (signOut w)) = None \<and>
   localStorage (signOut w) = None \<and>
   signOut (signOut w) = signOut w"
  by (simp add: signOut_def Let_def split: option.splits)

section \<open>Switching the organization\<close>

lemma select_membership_no_row:
  assumes "\<not> (\<exists>m \<in> set (be_organization_users b).
              Some (ou_user_id m) = userId \<and> ou_organization_id m = organizationId \<and>
              ou_status m = Active)"
  shows "\<exists>e. select_membership b userId organizationId = Inl e"
proof (cases "be_fault b SelectMembership")
  case None
  from assms have "filter (\<lambda>m. Some (ou_user_id m) = userId \<and>
                       ou_organization_id m = organizationId \<and> ou_status m = Active)
                    (be_organization_users b) = []"
    by (auto simp: filter_empty_conv)
  with None show ?thesis by (simp add: select_membership_def)
next
  case (Some f)
  then show ?thesis by (simp add: select_membership_def)
qed

text \<open>
  Claim C7. When the organization's row or the user's active membership in it cannot be
  read (the read goes wrong, or does not find exactly one row, as for an organization
  in which the user has no active membership), \<^verbatim>\<open>switchOrganization\<close> raises the error
  and the whole state is as before: organization, membership, permissions and the stored
  organization id.
\<close>

theorem switchOrganization_failure_keeps_state:
  assumes "supabase w = Some b"
    and "(\<exists>e. select_organization b organizationId = Inl e) \<or>
         (\<exists>e. select_membership b (opt_id (user (store w))) organizationId = Inl e) \<or>
         \<not> (\<exists>m \<in> set (be_organization_users b).
               Some (ou_user_id m) = opt_id (user (store w)) \<and>
               ou_organization_id m = organizationId \<and> ou_status m = Active)"
  shows "\<exists>e. switchOrganization organizationId w = (Inl e, w)"
proof -
  from assms(2) select_membership_no_row
  have "(\<exists>e. select_organization b organizationId = Inl e) \<or>
        (\<exists>e. select_membership b (opt_id (user (store w))) organizationId = Inl e)"
    by blast
  with assms(1) show ?thesis
    by (auto simp: switchOrganization_def split: sum.splits)
qed

theorem switchOrganization_failure_keeps_state_witness:
  "supabase ex_world_a = Some ex_backend \<and>
   \<not> (\<exists>m \<in> set (be_organization_users ex_backend).
         Some (ou_user_id m) = opt_id (user (store ex_world_a)) \<and>
         ou_organization_id m = ''orgZ'' \<and> ou_status m = Active) \<and>
   (\<exists>e. switchOrganization ''orgZ'' ex_world_a = (Inl e, ex_world_a)) \<and>
   organization (store ex_world_a) = Some ex_org_a \<and>
   localStorage ex_world_a = Some ''orgA''"
proof -
  have h1: "supabase ex_world_a = Some ex_backend"
    by (simp add: ex_world_a_def)
  have h2: "\<not> (\<exists>m \<in> set (be_organization_users ex_backend).
         Some (ou_user_id m) = opt_id (user (store ex_world_a)) \<and>
         ou_organization_id m = ''orgZ'' \<and> ou_status m = Active)"
    by (simp add: ex_defs opt_id_def)
  from switchOrganization_failure_keeps_state [OF h1, of "''orgZ''"] h2
  have "\<exists>e. switchOrganization ''orgZ'' ex_world_a = (Inl e, ex_world_a)" by blast
  with h1 h2 show ?thesis by (simp add: ex_world_a_def ex_store_a_def)
qed

section \<open>Restoring the organization after a restart\<close>

lemma maybeSingle_Some: "(maybeSingle rows = Inr (Some r)) = (rows = [r])"
  by (cases rows rule: maybeSingle.cases) auto

lemma select_user_Some:
  "(select_user b uid = Inr (Some u0)) =
     (be_fault b SelectUser = None \<and> filter (\<lambda>u. usr_id u = uid) (be_users b) = [u0])"
  by (auto simp: select_user_def maybeSingle_Some split: option.splits)

lemma select_user_id:
  assumes "select_user b uid = Inr (Some u0)"
  shows "usr_id u0 = uid"
proof -
  from assms have "filter (\<lambda>u. usr_id u = uid) (be_users b) = [u0]"
    by (simp add: select_user_Some)
  then have "u0 \<in> set (filter (\<lambda>u. usr_id u = uid) (be_users b))" by simp
  then show ?thesis by simp
qed








lemma switchOrganization_ok:
  assumes "supabase w = Some b" and "select_organization b X = Inr og"
    and "select_membership b (opt_id (user (store w))) X = Inr m"
  shows "switchOrganization X w =
           (Inr (), w\<lparr>localStorage := Some X,
                      store := (store w)\<lparr>organization := Some og,
                                          currentOrgMembership := Some m,
                                          permissions := Some (getPermissions (ou_role m))\<rparr>\<rparr>)"
  using assms by (simp add: switchOrganization_def)








lemma ex_rpc:
  "get_user_organizations ex_backend ''u1'' =
     [\<lparr>uo_organization_id = ''orgA'', uo_organization_name = ''Acme'', uo_user_role = ''admin'',
       uo_user_status = Active, uo_joined_at = 10\<rparr>,
      \<lparr>uo_organization_id = ''orgB'', uo_organization_name = ''Bolt'', uo_user_role = ''agent'',
       uo_user_status = Active, uo_joined_at = 20\<rparr>]"
  by (simp add: get_user_organizations_def ex_backend_def ex_member_a_def ex_member_b_def
        ex_org_a_def ex_org_b_def)



section \<open>Transitions on the quotes page\<close>




lemma qw_table_fetchData: "qw_table (fetchData w) = qw_table w"
  by (simp add: fetchData_def)

lemma qw_table_handleStatusChange:
  "qw_table (handleStatusChange w quoteId newStatus reason) =
     (if qw_supabase w \<and> \<not> qw_update_error w
      then update_quotes (qw_db_now w)
             (buildUpdateData (qw_user w) (qw_client_now w) (qw_quotes w) quoteId newStatus
                reason)
             quoteId (qw_table w)
      else qw_table w)"
  by (simp add: handleStatusChange_def Let_def qw_table_fetchData split: option.splits)


lemma update_quotes_row:
  "q \<in> set rows \<Longrightarrow> apply_update t upd q \<in> set (update_quotes t upd (q_id q) rows)"
  by (force simp: update_quotes_def)










lemma submit_edit_checks_agree:
  "canSubmitForApproval q (Some u) = spec_may_submit_or_edit q (usr_id u) (usr_role u)"
  "canEdit q (Some u) = spec_may_submit_or_edit q (usr_id u) (usr_role u)"
  "canPerformQuoteAction ActEdit q userRole userId =
     JBool (spec_may_submit_or_edit q userId (Some userRole))"
  by (auto simp: canSubmitForApproval_def canEdit_def spec_may_submit_or_edit_def opt_id_def
        opt_role_def)

text \<open>
  Claim C4. The modal and the authorizer permit submitting and editing exactly under the
  stated condition (lemma \<open>submit_edit_checks_agree\<close>), but the row of buttons in the list
  of quotes does not: for a draft created by someone else, an agent is denied by the modal
  and by the authorizer, and is still offered both buttons in the list, where submitting
  goes through.
\<close>

theorem list_submit_unchecked:
  "\<not> spec_may_submit_or_edit ex_draft (usr_id ex_other_agent) (usr_role ex_other_agent) \<and>
   \<not> canSubmitForApproval ex_draft (Some ex_other_agent) \<and>
   \<not> canEdit ex_draft (Some ex_other_agent) \<and>
   canPerformQuoteAction ActEdit ex_draft ''agent'' ''u2'' = JBool False \<and>
   list_offers ex_draft (qw_permissions ex_quotes_world) SubmitForApproval \<and>
   list_offers_edit ex_draft \<and>
   map_option (\<lambda>w. map q_status (qw_table w))
     (list_trigger ex_quotes_world ex_draft SubmitForApproval None) =
       Some [PendingApproval, PendingApproval]"
  by (simp add: spec_may_submit_or_edit_def canSubmitForApproval_def canEdit_def
       list_offers_edit_def list_trigger_def qw_table_handleStatusChange opt_id_def
       opt_role_def ex_quotes_world_def ex_draft_def ex_pending_def ex_other_agent_def
       update_quotes_def apply_update_def buildUpdateData_def Let_def)

section \<open>Signing in\<close>

lemma filter_id_map_login:
  "filter (\<lambda>u. usr_id u = uid)
     (map (\<lambda>u. if usr_id u = k then u\<lparr>usr_last_login := t\<rparr> else u) us) =
   map (\<lambda>u. if usr_id u = k then u\<lparr>usr_last_login := t\<rparr> else u)
     (filter (\<lambda>u. usr_id u = uid) us)"
  by (induction us) auto

lemma same_reads_eqs:
  assumes "same_reads b b'"
  shows "get_user_organizations b' uid = get_user_organizations b uid"
    and "be_fault b' r = be_fault b r"
    and "select_organization b' X = select_organization b X"
    and "select_membership b' i X = select_membership b i X"
  using assms
  by (simp_all add: same_reads_def get_user_organizations_def
        select_organization_def select_membership_def cong: option.case_cong)

lemma signIn_authenticated:
  assumes "supabase w = Some b"
    and "be_fault b SignInWithPassword = None"
    and "find_account b email password = Some (e, p, uid)"
    and "\<forall>err. be_fault b UpdateLastLogin \<noteq> Some (Thrown err)"
  shows "\<exists>b'. signIn email password w = (Inr (), fetchUserData uid (w\<lparr>supabase := Some b'\<rparr>)) \<and>
           same_reads b b' \<and>
           (\<forall>u0. select_user b uid = Inr (Some u0) \<longrightarrow>
              (\<exists>u1. select_user b' uid = Inr (Some u1)))"
proof (cases "be_fault b UpdateLastLogin")
  case None
  let ?b' = "b\<lparr>be_session := Some uid,
               be_users := map (\<lambda>u. if usr_id u = uid
                                     then u\<lparr>usr_last_login := Some (clock w)\<rparr> else u)
                               (be_users b)\<rparr>"
  have "signIn email password w = (Inr (), fetchUserData uid (w\<lparr>supabase := Some ?b'\<rparr>))"
    using assms None by (simp add: signIn_def Let_def)
  moreover have "same_reads b ?b'" by (simp add: same_reads_def)
  moreover have "\<forall>u0. select_user b uid = Inr (Some u0) \<longrightarrow>
                   (\<exists>u1. select_user ?b' uid = Inr (Some u1))"
    by (simp add: select_user_Some filter_id_map_login)
  ultimately show ?thesis by blast
next
  case (Some f)
  with assms(4) obtain err where f: "f = Returned err" by (cases f) auto
  let ?b' = "b\<lparr>be_session := Some uid\<rparr>"
  have "signIn email password w = (Inr (), fetchUserData uid (w\<lparr>supabase := Some ?b'\<rparr>))"
    using assms Some f by (simp add: signIn_def Let_def)
  moreover have "same_reads b ?b'" by (simp add: same_reads_def)
  moreover have "\<forall>u0. select_user b uid = Inr (Some u0) \<longrightarrow>
                   (\<exists>u1. select_user ?b' uid = Inr (Some u1))"
    by (simp add: select_user_Some)
  ultimately show ?thesis by blast
qed

lemma fetchUserData_rpc_fault:
  assumes "supabase w = Some b" and "select_user b uid = Inr (Some u0)"
    and "be_fault b RpcGetUserOrganizations \<noteq> None"
  shows "fetchUserData uid w = w"
  using assms by (auto simp: fetchUserData_def rpc_get_user_organizations_def)

lemma fetchUserData_activation_fails:
  assumes "supabase w = Some b" and "select_user b uid = Inr (Some u0)"
    and "be_fault b RpcGetUserOrganizations = None"
    and "targetOrgId (localStorage w) (get_user_organizations b uid) = Some X"
    and "X \<noteq> []"
    and "(\<exists>err. select_organization b X = Inl err) \<or>
         (\<exists>err. select_membership b (Some uid) X = Inl err)"
  shows "fetchUserData uid w =
           w\<lparr>store := (store w)\<lparr>user := Some u0,
                                 userOrganizations := get_user_organizations b uid\<rparr>\<rparr>"
proof -
  let ?w1 = "w\<lparr>store := (store w)\<lparr>user := Some u0,
                                    userOrganizations := get_user_organizations b uid\<rparr>\<rparr>"
  have id: "usr_id u0 = uid" using assms(2) by (rule select_user_id)
  have "\<exists>err. switchOrganization X ?w1 = (Inl err, ?w1)"
    using assms(1,6) id
    by (auto simp: switchOrganization_def opt_id_def split: sum.splits)
  then have "snd (switchOrganization X ?w1) = ?w1" by auto
  with assms(1-5) show ?thesis
    by (simp add: fetchUserData_def rpc_get_user_organizations_def)
qed

text \<open>
  Claim C10, as stated, does not hold when the read of the organizations fails: the error
  is swallowed and \<^verbatim>\<open>signIn\<close> resolves, but the user has not been set, because the store
  is written only after that read.
\<close>

theorem signIn_identity_not_set:
  "rpc_get_user_organizations ex_backend_rpc_down ''u1'' = Inl (PostgrestError ''57014'') \<and>
   fst (signIn ''ann@example.com'' ''pw'' (ex_fresh ex_backend_rpc_down)) = Inr () \<and>
   user (store (snd (signIn ''ann@example.com'' ''pw'' (ex_fresh ex_backend_rpc_down)))) = None"
  by (simp add: signIn_def fetchUserData_def select_user_def rpc_get_user_organizations_def
        find_account_def ex_fresh_def ex_backend_rpc_down_def ex_backend_def ex_user_def
        initial_store_def Let_def)

text \<open>
  Claim C10, amended. Once authentication has succeeded (and the update of the last
  login did not raise), \<^verbatim>\<open>signIn\<close> resolves whatever goes wrong while the profile, the
  organizations and the selected organization are loaded. When the profile is found and
  the read of the organizations fails, the store and the stored organization id are left
  as they were, so the user is not set. When the organizations are read and activating the
  selected one fails, the user and the list of organizations are set while organization,
  membership, permissions and the stored id keep their previous values.
\<close>

theorem signIn_swallows_load_failures:
  assumes "supabase w = Some b"
    and "be_fault b SignInWithPassword = None"
    and "find_account b email password = Some (e, p, uid)"
    and "\<forall>err. be_fault b UpdateLastLogin \<noteq> Some (Thrown err)"
  shows "fst (signIn email password w) = Inr () \<and>
    (select_user b uid = Inr (Some u0) \<and> be_fault b RpcGetUserOrganizations \<noteq> None \<longrightarrow>
       store (snd (signIn email password w)) = store w \<and>
       localStorage (snd (signIn email password w)) = localStorage w) \<and>
    (select_user b uid = Inr (Some u0) \<and> be_fault b RpcGetUserOrganizations = None \<and>
     targetOrgId (localStorage w) (get_user_organizations b uid) = Some X \<and> X \<noteq> [] \<and>
     ((\<exists>err. select_organization b X = Inl err) \<or>
      (\<exists>err. select_membership b (Some uid) X = Inl err)) \<longrightarrow>
       (\<exists>u1. user (store (snd (signIn email password w))) = Some u1 \<and> usr_id u1 = uid) \<and>
       userOrganizations (store (snd (signIn email password w))) =
         get_user_organizations b uid \<and>
       organization (store (snd (signIn email password w))) = organization (store w) \<and>
       currentOrgMembership (store (snd (signIn email password w))) =
         currentOrgMembership (store w) \<and>
       permissions (store (snd (signIn email password w))) = permissions (store w) \<and>
       localStorage (snd (signIn email password w)) = localStorage w)"
proof -
  from signIn_authenticated [OF assms]
  obtain b' where si: "signIn email password w =
                         (Inr (), fetchUserData uid (w\<lparr>supabase := Some b'\<rparr>))"
    and sr: "same_reads b b'"
    and su: "\<forall>u0. select_user b uid = Inr (Some u0) \<longrightarrow>
              (\<exists>u1. select_user b' uid = Inr (Some u1))"
    by blast
  let ?w' = "w\<lparr>supabase := Some b'\<rparr>"
  have cl: "supabase ?w' = Some b'" by simp
  have c1: "fst (signIn email password w) = Inr ()" by (simp add: si)
  have c2: "store (snd (signIn email password w)) = store w \<and>
            localStorage (snd (signIn email password w)) = localStorage w"
    if "select_user b uid = Inr (Some u0)" and "be_fault b RpcGetUserOrganizations \<noteq> None"
  proof -
    from su that(1) obtain u1 where u1: "select_user b' uid = Inr (Some u1)" by blast
    from that(2) have "be_fault b' RpcGetUserOrganizations \<noteq> None"
      by (simp add: same_reads_eqs [OF sr])
    from fetchUserData_rpc_fault [OF cl u1 this] show ?thesis by (simp add: si)
  qed
  have c3: "(\<exists>u1. user (store (snd (signIn email password w))) = Some u1 \<and> usr_id u1 = uid) \<and>
       userOrganizations (store (snd (signIn email password w))) =
         get_user_organizations b uid \<and>
       organization (store (snd (signIn email password w))) = organization (store w) \<and>
       currentOrgMembership (store (snd (signIn email password w))) =
         currentOrgMembership (store w) \<and>
       permissions (store (snd (signIn email password w))) = permissions (store w) \<and>
       localStorage (snd (signIn email password w)) = localStorage w"
    if prof: "select_user b uid = Inr (Some u0)"
      and rpc: "be_fault b RpcGetUserOrganizations = None"
      and tgt: "targetOrgId (localStorage w) (get_user_organizations b uid) = Some X"
      and ne: "X \<noteq> []"
      and fail: "(\<exists>err. select_organization b X = Inl err) \<or>
                 (\<exists>err. select_membership b (Some uid) X = Inl err)"
  proof -
    from su prof obtain u1 where u1: "select_user b' uid = Inr (Some u1)" by blast
    have id: "usr_id u1 = uid" using u1 by (rule select_user_id)
    have rpc': "be_fault b' RpcGetUserOrganizations = None"
      using rpc by (simp add: same_reads_eqs [OF sr])
    have tgt': "targetOrgId (localStorage ?w') (get_user_organizations b' uid) = Some X"
      using tgt by (simp add: same_reads_eqs [OF sr])
    have fail': "(\<exists>err. select_organization b' X = Inl err) \<or>
                 (\<exists>err. select_membership b' (Some uid) X = Inl err)"
      using fail by (simp add: same_reads_eqs [OF sr])
    from fetchUserData_activation_fails [OF cl u1 rpc' tgt' ne fail'] id
    show ?thesis by (simp add: si same_reads_eqs [OF sr])
  qed
  from c1 c2 c3 show ?thesis by blast
qed

theorem signIn_swallows_load_failures_witness:
  "fst (signIn ''ann@example.com'' ''pw'' (ex_fresh ex_backend_rpc_down)) = Inr () \<and>
   store (snd (signIn ''ann@example.com'' ''pw'' (ex_fresh ex_backend_rpc_down))) =
     store (ex_fresh ex_backend_rpc_down) \<and>
   fst (signIn ''ann@example.com'' ''pw'' (ex_fresh ex_backend_org_down)) = Inr () \<and>
   (\<exists>u1. user (store (snd (signIn ''ann@example.com'' ''pw'' (ex_fresh ex_backend_org_down))))
           = Some u1 \<and> usr_id u1 = ''u1'') \<and>
   organization (store (snd (signIn ''ann@example.com'' ''pw'' (ex_fresh ex_backend_org_down))))
     = organization (store (ex_fresh ex_backend_org_down))"
proof -
  have a1: "supabase (ex_fresh ex_backend_rpc_down) = Some ex_backend_rpc_down"
    by (simp add: ex_fresh_def)
  have a2: "be_fault ex_backend_rpc_down SignInWithPassword = None"
    by (simp add: ex_backend_rpc_down_def ex_backend_def)
  have a3: "find_account ex_backend_rpc_down ''ann@example.com'' ''pw'' =
              Some (''ann@example.com'', ''pw'', ''u1'')"
    by (simp add: find_account_def ex_backend_rpc_down_def ex_backend_def)
  have a4: "\<forall>err. be_fault ex_backend_rpc_down UpdateLastLogin \<noteq> Some (Thrown err)"
    by (simp add: ex_backend_rpc_down_def ex_backend_def)
  have a5: "select_user ex_backend_rpc_down ''u1'' = Inr (Some ex_user) \<and>
            be_fault ex_backend_rpc_down RpcGetUserOrganizations \<noteq> None"
    by (simp add: select_user_def ex_backend_rpc_down_def ex_backend_def ex_user_def)
  have b1: "supabase (ex_fresh ex_backend_org_down) = Some ex_backend_org_down"
    by (simp add: ex_fresh_def)
  have b2: "be_fault ex_backend_org_down SignInWithPassword = None"
    by (simp add: ex_backend_org_down_def ex_backend_def)
  have b3: "find_account ex_backend_org_down ''ann@example.com'' ''pw'' =
              Some (''ann@example.com'', ''pw'', ''u1'')"
    by (simp add: find_account_def ex_backend_org_down_def ex_backend_def)
  have b4: "\<forall>err. be_fault ex_backend_org_down UpdateLastLogin \<noteq> Some (Thrown err)"
    by (simp add: ex_backend_org_down_def ex_backend_def)
  have rpc: "get_user_organizations ex_backend_org_down ''u1'' =
               get_user_organizations ex_backend ''u1''"
    by (simp add: get_user_organizations_def ex_backend_org_down_def)
  have b5: "select_user ex_backend_org_down ''u1'' = Inr (Some ex_user) \<and>
            be_fault ex_backend_org_down RpcGetUserOrganizations = None \<and>
            targetOrgId (localStorage (ex_fresh ex_backend_org_down))
              (get_user_organizations ex_backend_org_down ''u1'') = Some ''orgA'' \<and>
            ''orgA'' \<noteq> [] \<and>
            ((\<exists>err. select_organization ex_backend_org_down ''orgA'' = Inl err) \<or>
             (\<exists>err. select_membership ex_backend_org_down (Some ''u1'') ''orgA'' = Inl err))"
    unfolding rpc ex_rpc
    by (simp add: select_user_def select_organization_def targetOrgId_def ex_fresh_def
          ex_backend_org_down_def ex_backend_def ex_user_def)
  from signIn_swallows_load_failures [OF a1 a2 a3 a4, of ex_user] a5
    signIn_swallows_load_failures [OF b1 b2 b3 b4, of ex_user "''orgA''"] b5
  show ?thesis by blast
qed

section \<open>Creating a quote\<close>

lemma getInitialStatus_profile_role:
  "getInitialStatus (Some (u\<lparr>usr_role := Some ''agent''\<rparr>)) = Draft \<and>
   getInitialStatus (Some (u\<lparr>usr_role := Some ''manager''\<rparr>)) = Approved \<and>
   getInitialStatus (Some (u\<lparr>usr_role := Some ''admin''\<rparr>)) = Approved \<and>
   initialStatus None (Some (u\<lparr>usr_role := Some ''agent''\<rparr>)) = Draft \<and>
   initialStatus None (Some (u\<lparr>usr_role := Some ''manager''\<rparr>)) = Approved \<and>
   initialStatus None (Some (u\<lparr>usr_role := Some ''admin''\<rparr>)) = Approved"
  by (simp add: getInitialStatus_def initialStatus_def opt_role_def)

lemma ex_signIn_admin_profile:
  "fst (signIn ''ann@example.com'' ''pw'' (ex_fresh ex_backend_admin_profile)) = Inr () \<and>
   store (snd (signIn ''ann@example.com'' ''pw'' (ex_fresh ex_backend_admin_profile))) =
     \<lparr>user = Some (ex_user\<lparr>usr_role := Some ''admin'', usr_last_login := Some 100\<rparr>),
      organization = Some ex_org_a, currentOrgMembership = Some ex_member_a,
      userOrganizations = get_user_organizations ex_backend ''u1'',
      permissions = Some (Caps admin_permissions), loading = True\<rparr> \<and>
   supabase (snd (signIn ''ann@example.com'' ''pw'' (ex_fresh ex_backend_admin_profile))) =
     Some (ex_backend_admin_profile
             \<lparr>be_session := Some ''u1'',
              be_users := [ex_user\<lparr>usr_role := Some ''admin'', usr_last_login := Some 100\<rparr>]\<rparr>)"
  by (simp add: signIn_def fetchUserData_def select_user_def rpc_get_user_organizations_def
        get_user_organizations_def targetOrgId_def switchOrganization_def
        select_organization_def select_membership_def find_account_def opt_id_def
        getPermissions_def initial_store_def Let_def ex_fresh_def
        ex_backend_admin_profile_def ex_backend_def ex_user_def ex_org_a_def ex_org_b_def
        ex_member_a_def ex_member_b_def)

text \<open>
  Claim C2. The status of a new quote is to follow the creator's role, which is the role
  of the membership in the active organization. \<^verbatim>\<open>getInitialStatus\<close> branches on
  \<^verbatim>\<open>user?.role\<close> instead, the role column of the profile row (lemma
  \<open>getInitialStatus_profile_role\<close>), which no switch of organization changes. A user
  whose profile says admin signs in and switches to an organization where the membership
  is agent: the store holds the agent's membership and capabilities, the sidebar hides the
  settings, and a new quote still starts as approved where the claim says draft.
\<close>

theorem getInitialStatus_ignores_membership_role:
  "fst (signIn ''ann@example.com'' ''pw'' (ex_fresh ex_backend_admin_profile)) = Inr () \<and>
   fst (switchOrganization ''orgB''
          (snd (signIn ''ann@example.com'' ''pw'' (ex_fresh ex_backend_admin_profile)))) =
     Inr () \<and>
   currentOrgMembership (store ex_world_agent_in_b) = Some ex_member_b \<and>
   ou_role ex_member_b = ''agent'' \<and>
   permissions (store ex_world_agent_in_b) = Some (Caps agent_permissions) \<and>
   \<not> showSettings (store ex_world_agent_in_b) \<and>
   opt_role (user (store ex_world_agent_in_b)) = Some ''admin'' \<and>
   getInitialStatus (user (store ex_world_agent_in_b)) = Approved \<and>
   initialStatus None (user (store ex_world_agent_in_b)) = Approved"
proof -
  define w1 where "w1 = snd (signIn ''ann@example.com'' ''pw'' (ex_fresh ex_backend_admin_profile))"
  define b1 where "b1 = ex_backend_admin_profile
             \<lparr>be_session := Some ''u1'',
              be_users := [ex_user\<lparr>usr_role := Some ''admin'', usr_last_login := Some 100\<rparr>]\<rparr>"
  have ok: "fst (signIn ''ann@example.com'' ''pw'' (ex_fresh ex_backend_admin_profile)) = Inr ()"
    using ex_signIn_admin_profile by blast
  have st: "store w1 =
     \<lparr>user = Some (ex_user\<lparr>usr_role := Some ''admin'', usr_last_login := Some 100\<rparr>),
      organization = Some ex_org_a, currentOrgMembership = Some ex_member_a,
      userOrganizations = get_user_organizations ex_backend ''u1'',
      permissions = Some (Caps admin_permissions), loading = True\<rparr>"
    unfolding w1_def using ex_signIn_admin_profile by blast
  have cl: "supabase w1 = Some b1"
    unfolding w1_def b1_def using ex_signIn_admin_profile by blast
  have so: "select_organization b1 ''orgB'' = Inr ex_org_b"
    by (simp add: b1_def select_organization_def ex_backend_admin_profile_def ex_backend_def
          ex_org_a_def ex_org_b_def)
  have sm: "select_membership b1 (opt_id (user (store w1))) ''orgB'' = Inr ex_member_b"
    unfolding st
    by (simp add: b1_def select_membership_def opt_id_def ex_backend_admin_profile_def
          ex_backend_def ex_user_def ex_member_a_def ex_member_b_def)
  note sw = switchOrganization_ok [OF cl so sm]
  have w2: "ex_world_agent_in_b =
              w1\<lparr>localStorage := Some ''orgB'',
                 store := (store w1)\<lparr>organization := Some ex_org_b,
                                      currentOrgMembership := Some ex_member_b,
                                      permissions := Some (getPermissions (ou_role ex_member_b))\<rparr>\<rparr>"
    unfolding ex_world_agent_in_b_def w1_def [symmetric] sw by simp
  have f2: "fst (switchOrganization ''orgB'' w1) = Inr ()"
    unfolding sw by simp
  have role: "ou_role ex_member_b = ''agent''"
    by (simp add: ex_member_b_def)
  have rest: "currentOrgMembership (store ex_world_agent_in_b) = Some ex_member_b \<and>
     permissions (store ex_world_agent_in_b) = Some (Caps agent_permissions) \<and>
     \<not> showSettings (store ex_world_agent_in_b) \<and>
     opt_role (user (store ex_world_agent_in_b)) = Some ''admin'' \<and>
     getInitialStatus (user (store ex_world_agent_in_b)) = Approved \<and>
     initialStatus None (user (store ex_world_agent_in_b)) = Approved"
    unfolding w2
    by (simp add: st role getPermissions_def showSettings_def getInitialStatus_def
          initialStatus_def opt_role_def)
  from ok f2 role rest show ?thesis unfolding w1_def by blast
qed

end
